theory Spec2Isabelle
  imports Complex_Main "HOL-Library.AList"
begin

section \<open>JavaScript values\<close>

text \<open>
  Request bodies and stored client records are whatever the JSON body parser produced; a
  missing body, a missing property and a missing store entry are all \<open>undefined\<close>.
  An object is the list of its own properties, the first binding of a name being the
  visible one. A number is any rational; zero is the one that is falsy.
\<close>

datatype jsval =
    JUndefined
  | JNull
  | JBool bool
  | JNum rat
  | JStr string
  | JArr "jsval list"
  | JObj "(string \<times> jsval) list"

text \<open>What \<open>if (v)\<close> and \<open>!v\<close> test.\<close>

fun truthy :: "jsval \<Rightarrow> bool" where
  "truthy JUndefined = False"
| "truthy JNull = False"
| "truthy (JBool b) = b"
| "truthy (JNum n) = (n \<noteq> 0)"
| "truthy (JStr s) = (s \<noteq> [])"
| "truthy (JArr xs) = True"
| "truthy (JObj ps) = True"

text \<open>
  \<open>v.prop\<close> for a value that is neither \<open>null\<close> nor \<open>undefined\<close> (every use below is
  guarded by a truthiness test of \<open>v\<close>): an object yields its own property, anything else
  has no property of the names the code reads.
\<close>

fun get_prop :: "jsval \<Rightarrow> string \<Rightarrow> jsval" where
  "get_prop (JObj ps) prop = (case map_of ps prop of None \<Rightarrow> JUndefined | Some v \<Rightarrow> v)"
| "get_prop v prop = JUndefined"

datatype js_error = TypeError

text \<open>
  \<open>prop in v\<close>: raises a TypeError on a primitive. Own properties only: the values of the
  model carry no prototype chain, and the one name the class passes (\<open>sharedSecret\<close>) is
  neither inherited nor an array index.
\<close>

fun js_in :: "string \<Rightarrow> jsval \<Rightarrow> js_error + bool" where
  "js_in prop (JObj ps) = Inr (map_of ps prop \<noteq> None)"
| "js_in prop (JArr xs) = Inr False"
| "js_in prop v = Inl TypeError"

section \<open>The client store\<close>

text \<open>
  The store is a Keyv instance, an external key-value store. Keyv turns the key it is
  given into a string; that rendering is the parameter \<open>ks\<close> of every operation. The
  backend is taken to be reachable: \<open>get\<close>, \<open>set\<close> and \<open>delete\<close> resolve, and \<open>get\<close>
  resolves to \<open>undefined\<close> for a key with no entry.
\<close>

type_synonym store = "string \<rightharpoonup> jsval"

definition keyv_get :: "(jsval \<Rightarrow> string) \<Rightarrow> store \<Rightarrow> jsval \<Rightarrow> jsval" where
  "keyv_get ks db k = (case db (ks k) of None \<Rightarrow> JUndefined | Some v \<Rightarrow> v)"

definition keyv_set :: "(jsval \<Rightarrow> string) \<Rightarrow> store \<Rightarrow> jsval \<Rightarrow> jsval \<Rightarrow> store" where
  "keyv_set ks db k v = db(ks k \<mapsto> v)"

definition keyv_delete :: "(jsval \<Rightarrow> string) \<Rightarrow> store \<Rightarrow> jsval \<Rightarrow> store" where
  "keyv_delete ks db k = db(ks k := None)"

section \<open>Responses\<close>

record response =
  status :: nat
  json :: jsval

text \<open>\<open>sendError(code, msg, res)\<close>: \<open>res.status(code).json({ code, msg })\<close>.\<close>

definition sendError :: "nat \<Rightarrow> string \<Rightarrow> response" where
  "sendError code msg =
     \<lparr>status = code, json = JObj [(''code'', JNum (of_nat code)), (''msg'', JStr msg)]\<rparr>"

section \<open>The descriptor\<close>

text \<open>
  \<open>IDescriptorModule\<close> and its extension \<open>IWebhookDefinition\<close>; an optional property is an
  \<open>option\<close>. Field names shared between interfaces carry a prefix.
\<close>

record descriptor_module =
  m_key :: "string option"
  m_description :: "string option"

record webhook_definition = descriptor_module +
  event :: string
  url :: "string option"
  excludeBody :: "bool option"
  filter_expr :: "string option"
  propertyKeys :: "string list option"

datatype module_entry = Module descriptor_module | WebhookModule webhook_definition

record lifecycle_paths =
  installed :: string
  uninstalled :: string

record descriptor =
  key :: string
  name :: string
  description :: string
  vendor :: "(string \<times> string) option"
  authentication :: string
  baseUrl :: string
  modules :: "(string \<times> module_entry list) list option"
  links :: "string option"
  lifecycle :: "lifecycle_paths option"
  enableLicensing :: "bool option"
  scopes :: "string list option"

section \<open>Webhook payloads and handlers\<close>

text \<open>
  \<open>IWebhookPayload\<close>: the two declared string fields and the index signature, which
  admits any further property.
\<close>

record webhook_payload =
  wp_timestamp :: string
  wp_event :: string
  wp_index :: "(string \<times> jsval) list"

text \<open>\<open>payload.prop\<close>, a property read of a payload.\<close>

definition payload_get :: "webhook_payload \<Rightarrow> string \<Rightarrow> jsval" where
  "payload_get p prop =
     (if prop = ''timestamp'' then JStr (wp_timestamp p)
      else if prop = ''event'' then JStr (wp_event p)
      else (case map_of (wp_index p) prop of None \<Rightarrow> JUndefined | Some v \<Rightarrow> v))"

text \<open>
  A handler returns a promise of a boolean. It resolves, or it rejects with some value
  \<open>e\<close>; of that value the route reads \<open>e.toString()\<close> only, which raises a TypeError when
  \<open>e\<close> is \<open>null\<close> or \<open>undefined\<close> and returns a string otherwise.
\<close>

datatype rejection = RejectNullish | RejectValue string

datatype handler_result = Resolves bool | Rejects rejection

fun toString :: "rejection \<Rightarrow> js_error + string" where
  "toString RejectNullish = Inl TypeError"
| "toString (RejectValue s) = Inr s"

record webhook_configuration =
  defn :: webhook_definition
  handler :: "webhook_payload \<Rightarrow> handler_result"

section \<open>The add-on instance\<close>

datatype http_method = GET | POST

datatype middleware = BodyParserJson | AuthenticationMiddleware

datatype meta_handler = InstalledCallback | UninstalledCallback | DescriptorEndpoint

record router =
  uses :: "middleware list"
  routes :: "(http_method \<times> string \<times> meta_handler) list"

text \<open>
  What has been registered on the Express application: the meta router, mounted by
  reference under a path, and webhook routes, each closing over the batch of
  configurations it was registered with.
\<close>

datatype app_entry =
    MountMetaRouter string
  | WebhookRoute string "middleware list" "webhook_configuration list"

datatype client = Client string string string

record jira_connection =
  host :: string
  username :: string
  apiToken :: string
  jira_client :: "client option"

text \<open>
  The fields of \<open>AtlassianAddon\<close>. \<open>logged\<close> collects the messages passed to the module's
  logger.
\<close>

record addon =
  subApp :: "app_entry list"
  descriptorData :: descriptor
  maxTokenAge_field :: rat
  db :: store
  metaRouter :: "router option"
  addonPath :: string
  jira :: "jira_connection option"
  logged :: "string list"

definition addLifecycleEndpoints :: "addon \<Rightarrow> addon" where
  "addLifecycleEndpoints a =
     (if metaRouter a \<noteq> None
      then a\<lparr>logged := logged a @ [''Trying to reinitialize lifecycle endpoints.   Skipping...'']\<rparr>
      else a\<lparr>metaRouter := Some
                 \<lparr>uses = [BodyParserJson],
                  routes = [(POST, ''/installed'', InstalledCallback),
                            (POST, ''/uninstalled'', UninstalledCallback),
                            (GET, ''/descriptor'', DescriptorEndpoint)]\<rparr>,
             subApp := subApp a @ [MountMetaRouter (addonPath a @ ''/meta'')],
             descriptorData := (descriptorData a)
               \<lparr>lifecycle := Some \<lparr>installed = ''/meta/installed'',
                                   uninstalled = ''/meta/uninstalled''\<rparr>\<rparr>\<rparr>)"

text \<open>
  The constructor. \<open>params\<close> is the descriptor the host passes; an absent \<open>scopes\<close> takes
  the default, a zero or absent \<open>maxTokenAge\<close> becomes fifteen minutes. \<open>app\<close> is what the
  host's Express application already holds, \<open>backend\<close> the content of the store the
  connection string names (the string itself is opaque and only selects the backend).
\<close>

definition AtlassianAddon ::
  "descriptor \<Rightarrow> app_entry list \<Rightarrow> string \<Rightarrow> store \<Rightarrow> rat option \<Rightarrow> jira_connection option
     \<Rightarrow> addon" where
  "AtlassianAddon params app path backend maxAge jiraConnection =
     addLifecycleEndpoints
       \<lparr>subApp = app,
        descriptorData = params
          \<lparr>scopes := (case scopes params of None \<Rightarrow> Some [''read'', ''write''] | Some s \<Rightarrow> Some s),
           baseUrl := baseUrl params @ path\<rparr>,
        maxTokenAge_field = (case maxAge of None \<Rightarrow> 15 * 60
                              | Some n \<Rightarrow> if n = 0 then 15 * 60 else n),
        db = backend,
        metaRouter = None,
        addonPath = path,
        jira = (case jiraConnection of None \<Rightarrow> None
                 | Some j \<Rightarrow> Some (j\<lparr>jira_client :=
                     Some (Client (host j) (username j) (apiToken j))\<rparr>)),
        logged = []\<rparr>"

definition skipQshVerification :: "addon \<Rightarrow> bool" where
  "skipQshVerification a = True"

text \<open>\<open>toJson()\<close>, the body of the descriptor endpoint's response.\<close>

definition toJson :: "addon \<Rightarrow> descriptor" where
  "toJson a = descriptorData a"

subsection \<open>Client data\<close>

text \<open>
  \<open>getClientData(clientKey, key)\<close>: the named property of the stored record, \<open>undefined\<close>
  when there is no record or the record lacks the property. \<open>Inl\<close> is a raised
  exception, \<open>Inr\<close> the value the promise resolves to.
\<close>

definition getClientData ::
  "(jsval \<Rightarrow> string) \<Rightarrow> addon \<Rightarrow> string \<Rightarrow> string \<Rightarrow> js_error + jsval" where
  "getClientData ks a clientKey prop =
     (let data = keyv_get ks (db a) (JStr clientKey) in
      if truthy data
      then (case js_in prop data of
              Inl e \<Rightarrow> Inl e
            | Inr present \<Rightarrow> if present then Inr (get_prop data prop) else Inr JUndefined)
      else Inr JUndefined)"

definition getSharedSecret :: "(jsval \<Rightarrow> string) \<Rightarrow> addon \<Rightarrow> string \<Rightarrow> js_error + jsval" where
  "getSharedSecret ks a clientKey = getClientData ks a clientKey ''sharedSecret''"

subsection \<open>The lifecycle callbacks\<close>

text \<open>
  The two POST callbacks of the meta router, as functions of the instance and the parsed
  request body, returning the instance afterwards and the response sent.
\<close>

definition installed_callback :: "(jsval \<Rightarrow> string) \<Rightarrow> addon \<Rightarrow> jsval \<Rightarrow> addon \<times> response" where
  "installed_callback ks a body =
     (let clientData = body in
      if \<not> truthy clientData
      then (a, sendError 500 ''Received malformed installation payload from Jira'')
      else if \<not> truthy (get_prop clientData ''clientKey'')
      then (a, sendError 500 ''Received malformed installation payload from Jira'')
      else (a\<lparr>db := keyv_set ks (db a) (get_prop clientData ''clientKey'') clientData\<rparr>,
            sendError 200 ''Installation completed successfully''))"

definition uninstalled_callback :: "(jsval \<Rightarrow> string) \<Rightarrow> addon \<Rightarrow> jsval \<Rightarrow> addon \<times> response" where
  "uninstalled_callback ks a body =
     (let clientData = body in
      if \<not> truthy clientData
      then (a, sendError 500 ''Received malformed installation payload from Jira'')
      else if \<not> truthy (get_prop clientData ''clientKey'')
      then (a, sendError 500 ''Received malformed installation payload from Jira'')
      else (a\<lparr>db := keyv_delete ks (db a) (get_prop clientData ''clientKey'')\<rparr>,
            sendError 200 ''Uninstall completed successfully''))"

subsection \<open>Webhook registration and dispatch\<close>

text \<open>
  \<open>addWebhooks(webhooks)\<close> rewrites the url of every definition, appends the definitions to
  the \<open>webhooks\<close> modules of the descriptor (creating \<open>modules\<close> and \<open>modules.webhooks\<close>
  when absent) and registers one POST route whose last callback closes over the batch.
\<close>

definition set_url :: "webhook_configuration \<Rightarrow> webhook_configuration" where
  "set_url wh = wh\<lparr>defn := (defn wh)\<lparr>url := Some (''/webhook/'' @ event (defn wh))\<rparr>\<rparr>"

definition addWebhooks :: "addon \<Rightarrow> webhook_configuration list \<Rightarrow> addon" where
  "addWebhooks a webhooks =
     (let whs = map set_url webhooks;
          mods = (case modules (descriptorData a) of None \<Rightarrow> [] | Some m \<Rightarrow> m);
          present = (case map_of mods ''webhooks'' of None \<Rightarrow> [] | Some ws \<Rightarrow> ws);
          mods' = AList.update ''webhooks'' (present @ map (\<lambda>wh. WebhookModule (defn wh)) whs) mods
      in a\<lparr>descriptorData := (descriptorData a)\<lparr>modules := Some mods'\<rparr>,
           subApp := subApp a @
             [WebhookRoute (addonPath a @ ''/webhook/:event'')
                [BodyParserJson, AuthenticationMiddleware] whs]\<rparr>)"

text \<open>\<open>Array.prototype.findIndex\<close>: the index of the first element that satisfies the
  predicate, \<open>-1\<close> when there is none.\<close>

fun findIndex :: "('a \<Rightarrow> bool) \<Rightarrow> 'a list \<Rightarrow> int" where
  "findIndex P [] = - 1"
| "findIndex P (x # xs) =
     (if P x then 0 else (let r = findIndex P xs in if r < 0 then - 1 else r + 1))"

text \<open>
  A request as the last callback of the webhook route sees it, that is after the body
  parser and the authentication middleware have passed it on: the \<open>:event\<close> route
  parameter and the parsed body (\<open>None\<close> when \<open>req.body\<close> is not set).
\<close>

record request =
  req_params_event :: string
  req_body :: "webhook_payload option"

text \<open>
  What one run of the callback does: the handlers it invoked (index into the batch, and
  the argument), the response it sent if any, the error it passed to \<open>next\<close> if any, the
  messages it logged, and the exception that left the callback uncaught, if any.
\<close>

record outcome =
  invoked :: "(nat \<times> webhook_payload) list"
  sent :: "response option"
  next_error :: "string option"
  messages :: "string list"
  uncaught :: "js_error option"

definition event_not_set :: string where
  "event_not_set = ''Received an event from Jira but the event parameter was not set which suggests that the URL was setup incorrectly''"

text \<open>The \<open>catch (e)\<close> block: it logs \<open>e.toString()\<close>, then answers 500.\<close>

definition catch_block :: "outcome \<Rightarrow> rejection \<Rightarrow> outcome" where
  "catch_block out e =
     (case toString e of
        Inl err \<Rightarrow> out\<lparr>uncaught := Some err\<rparr>
      | Inr s \<Rightarrow>
          out\<lparr>messages := messages out @
                 [''Unable to handle a webhook event that  was received from Jira: '' @ s],
              sent := Some (sendError 500 ''Exception thrown during handling of webhook event'')\<rparr>)"

definition webhook_callback :: "webhook_configuration list \<Rightarrow> request \<Rightarrow> outcome" where
  "webhook_callback webhooks req =
     (let start =
            (if req_params_event req = []
             then \<lparr>invoked = [], sent = None, next_error = Some event_not_set,
                   messages = [event_not_set], uncaught = None\<rparr>
             else \<lparr>invoked = [], sent = None, next_error = None,
                   messages = [], uncaught = None\<rparr>)
      in case req_body req of
           None \<Rightarrow>
             start\<lparr>messages := messages start @
               [''Received a webhook event but no pre-processing of the body has been done.  Make sure and add a body parser middleware to the route'']\<rparr>
         | Some payload \<Rightarrow>
             (let index = findIndex
                    (\<lambda>wh. JStr (event (defn wh)) = payload_get payload ''webhookEvent'') webhooks
              in if index \<ge> 0
                 then (let called = start\<lparr>invoked := [(nat index, payload)]\<rparr>
                       in case handler (webhooks ! nat index) payload of
                            Resolves b \<Rightarrow>
                              called\<lparr>sent := Some (sendError 200 ''Event handled successfully'')\<rparr>
                          | Rejects e \<Rightarrow> catch_block called e)
                 else start\<lparr>messages := messages start @
                              [''Webhook event handler not found for '' @ wp_event payload],
                            sent := Some (sendError 404 ''Event handler not found'')\<rparr>))"

section \<open>Requesting a UPM token\<close>

text \<open>
  The request object \<open>getAxiosConfig\<close> builds. The two external encoders are kept
  symbolic: \<open>ac_url\<close> lists the segments handed to \<open>urljoin\<close> in order, and
  \<open>ac_basic\<close> is the text whose base64 rendering follows \<open>Basic\<close> in the Authorization
  header.
\<close>

record axios_config =
  ac_method :: string
  ac_url :: "string list"
  ac_params :: "(string \<times> string) list option"
  ac_data :: "(string \<times> string) list option"
  ac_accept :: string
  ac_basic :: string

record axios_response =
  res_status :: nat
  res_statusText :: string
  res_headers :: "(string \<times> string) list"

text \<open>A promise that has settled.\<close>

datatype 'a promise = Resolved 'a | Rejected string

definition getAxiosConfig ::
  "string \<Rightarrow> jira_connection \<Rightarrow> string \<Rightarrow> (string \<times> string) list option
     \<Rightarrow> (string \<times> string) list option \<Rightarrow> string option \<Rightarrow> axios_config" where
  "getAxiosConfig method server mimeType params data path =
     \<lparr>ac_method = method,
      ac_url = [host server, ''/rest/plugins/1.0''] @
        (case path of None \<Rightarrow> [] | Some p \<Rightarrow> if p = [] then [] else [p]),
      ac_params = params,
      ac_data = data,
      ac_accept = mimeType,
      ac_basic = username server @ '':'' @ apiToken server\<rparr>"

text \<open>The callback given to \<open>then\<close>: the \<open>upm-token\<close> header when the response has one.\<close>

definition upm_token_callback :: "axios_response \<Rightarrow> jsval" where
  "upm_token_callback res =
     (case map_of (res_headers res) ''upm-token'' of None \<Rightarrow> JUndefined | Some t \<Rightarrow> JStr t)"

text \<open>
  \<open>getUpmToken(server)\<close>, with the HTTP client as the parameter \<open>axios\<close>. A rejected
  request is rethrown by the \<open>await\<close>; a response goes through the callback, whose
  result is awaited and dropped.
\<close>

definition getUpmToken ::
  "(axios_config \<Rightarrow> axios_response promise) \<Rightarrow> jira_connection \<Rightarrow> jsval promise" where
  "getUpmToken axios server =
     (case axios (getAxiosConfig ''get'' server ''application/vnd.atl.plugins.installed+json''
                    (Some [(''os_authType'', ''basic'')]) None None) of
        Rejected err \<Rightarrow> Rejected err
      | Resolved res \<Rightarrow> (let dropped = upm_token_callback res in Resolved JUndefined))"

section \<open>The request-hash step of token verification\<close>

text \<open>The outcome of the step: skipped, or performed with the result of the comparison.\<close>

datatype qsh_step = QshSkipped | QshChecked bool

text \<open>
  Modelled from the spec: the authentication middleware (imported from \<open>./auth\<close>) is not
  among the sources. Step 4 of the specified verification cross-checks the hash of the
  canonical request against the claim embedded in the token unless the host has disabled
  the check, in which case the step is skipped. Whether the host has disabled it is the
  parameter \<open>disabled\<close>; what the verifier reads to learn it is not in the sources.
\<close>

definition cross_check_qsh :: "bool \<Rightarrow> string \<Rightarrow> string \<Rightarrow> qsh_step" where
  "cross_check_qsh disabled request_hash claimed_hash =
     (if disabled then QshSkipped else QshChecked (request_hash = claimed_hash))"

section \<open>Concrete inputs\<close>

text \<open>A key rendering under which a string key is stored under itself.\<close>

definition plain_key :: "jsval \<Rightarrow> string" where
  "plain_key k = (case k of JStr s \<Rightarrow> s | _ \<Rightarrow> [])"

definition demo_descriptor :: descriptor where
  "demo_descriptor =
     \<lparr>key = ''demo-addon'', name = ''Demo'', description = ''A demo add-on'', vendor = None,
      authentication = ''jwt'', baseUrl = ''https://example.com'', modules = None,
      links = None, lifecycle = None, enableLicensing = None, scopes = None\<rparr>"

definition demo_record :: jsval where
  "demo_record = JObj [(''clientKey'', JStr ''T1''), (''sharedSecret'', JStr ''S1'')]"

text \<open>An instance as the constructor builds it, over a store in which tenant \<open>T1\<close> is
  installed.\<close>

definition demo_addon :: addon where
  "demo_addon =
     AtlassianAddon demo_descriptor [] ''/jira/addon'' [''T1'' \<mapsto> demo_record] None None"

definition issue_created :: webhook_definition where
  "issue_created =
     \<lparr>m_key = None, m_description = None, event = ''jira:issue_created'', url = None,
      excludeBody = None, filter_expr = None, propertyKeys = None\<rparr>"

text \<open>A payload that names its event in the \<open>webhookEvent\<close> property.\<close>

definition jira_payload :: webhook_payload where
  "jira_payload =
     \<lparr>wp_timestamp = ''1700000000000'', wp_event = ''jira:issue_created'',
      wp_index = [(''webhookEvent'', JStr ''jira:issue_created'')]\<rparr>"



section \<open>Properties of \<open>findIndex\<close>\<close>

lemma findIndex_none: "(\<forall>x\<in>set xs. \<not> P x) \<Longrightarrow> findIndex P xs = - 1"
  by (induction xs) (auto simp: Let_def)

lemma findIndex_some: "\<exists>x\<in>set xs. P x \<Longrightarrow> 0 \<le> findIndex P xs"
proof (induction xs)
  case Nil
  then show ?case by simp
next
  case (Cons x xs)
  show ?case
  proof (cases "P x")
    case True
    then show ?thesis by simp
  next
    case False
    with Cons.prems have "\<exists>y\<in>set xs. P y" by simp
    then have "0 \<le> findIndex P xs" by (rule Cons.IH)
    then show ?thesis using False by (simp add: Let_def)
  qed
qed

lemma findIndex_found: "i < length xs \<Longrightarrow> P (xs ! i) \<Longrightarrow> 0 \<le> findIndex P xs"
  using findIndex_some [of xs P] nth_mem by blast



section \<open>The client store and the lifecycle callbacks\<close>

text \<open>
  C2. For a tenant key with no installation record in the store, \<open>getSharedSecret\<close>
  resolves to \<open>undefined\<close>: the lookup raises nothing and yields no secret, so a verifier
  that asks for the secret of an uninstalled tenant gets none.
\<close>

theorem getSharedSecret_unknown_tenant:
  "db a (ks (JStr clientKey)) = None \<Longrightarrow> getSharedSecret ks a clientKey = Inr JUndefined"
  by (simp add: getSharedSecret_def getClientData_def keyv_get_def)

theorem getSharedSecret_unknown_tenant_witness:
  "db demo_addon (plain_key (JStr ''T2'')) = None \<and>
   getSharedSecret plain_key demo_addon ''T2'' = Inr JUndefined"
proof -
  have h: "db demo_addon (plain_key (JStr ''T2'')) = None"
    by (simp add: demo_addon_def AtlassianAddon_def addLifecycleEndpoints_def plain_key_def)
  from getSharedSecret_unknown_tenant [of demo_addon plain_key "''T2''", OF h] h
  show ?thesis by simp
qed

text \<open>For comparison, the installed tenant's secret is found.\<close>

lemma getSharedSecret_installed:
  "getSharedSecret plain_key demo_addon ''T1'' = Inr (JStr ''S1'')"
  by (simp add: getSharedSecret_def getClientData_def keyv_get_def demo_addon_def
      AtlassianAddon_def addLifecycleEndpoints_def plain_key_def demo_record_def)

text \<open>
  C3. An install notification with no body, or with a body that lacks the \<open>clientKey\<close>
  property, is answered with the error response \<open>{code: 500, msg}\<close>, and the instance,
  its store included, is left exactly as it was.
\<close>

theorem installed_malformed_payload:
  assumes "body = JUndefined \<or> get_prop body ''clientKey'' = JUndefined"
  shows "installed_callback ks a body =
           (a, \<lparr>status = 500,
                json = JObj [(''code'', JNum 500),
                             (''msg'', JStr ''Received malformed installation payload from Jira'')]\<rparr>)"
  using assms by (auto simp: installed_callback_def sendError_def Let_def)

theorem installed_malformed_payload_witness:
  "get_prop (JObj []) ''clientKey'' = JUndefined \<and>
   installed_callback plain_key demo_addon (JObj []) =
     (demo_addon, \<lparr>status = 500,
        json = JObj [(''code'', JNum 500),
                     (''msg'', JStr ''Received malformed installation payload from Jira'')]\<rparr>)"
proof -
  have h: "JObj [] = JUndefined \<or> get_prop (JObj []) ''clientKey'' = JUndefined" by simp
  from installed_malformed_payload [of "JObj []" plain_key demo_addon, OF h]
  show ?thesis by simp
qed

text \<open>
  C4. An uninstall notification that carries a tenant key with no stored record is
  answered with \<open>{code: 200, msg}\<close> and leaves the instance, its store included, as it
  was; and for any notification that carries a tenant key, handling it a second time
  ends in the same state and the same response as handling it once.
\<close>

theorem uninstalled_unknown_tenant:
  assumes "truthy body" and "truthy (get_prop body ''clientKey'')"
  shows "(db a (ks (get_prop body ''clientKey'')) = None \<longrightarrow>
            uninstalled_callback ks a body =
              (a, \<lparr>status = 200,
                   json = JObj [(''code'', JNum 200),
                                (''msg'', JStr ''Uninstall completed successfully'')]\<rparr>))
         \<and> uninstalled_callback ks (fst (uninstalled_callback ks a body)) body =
             uninstalled_callback ks a body"
  using assms
  by (auto simp: uninstalled_callback_def sendError_def Let_def keyv_delete_def fun_upd_idem)

theorem uninstalled_unknown_tenant_witness:
  "truthy (JObj [(''clientKey'', JStr ''T2'')]) \<and>
   truthy (get_prop (JObj [(''clientKey'', JStr ''T2'')]) ''clientKey'') \<and>
   db demo_addon (plain_key (get_prop (JObj [(''clientKey'', JStr ''T2'')]) ''clientKey'')) = None \<and>
   uninstalled_callback plain_key demo_addon (JObj [(''clientKey'', JStr ''T2'')]) =
     (demo_addon, \<lparr>status = 200,
        json = JObj [(''code'', JNum 200),
                     (''msg'', JStr ''Uninstall completed successfully'')]\<rparr>)"
proof -
  let ?body = "JObj [(''clientKey'', JStr ''T2'')]"
  have t: "truthy ?body" and k: "truthy (get_prop ?body ''clientKey'')" by simp_all
  have h: "db demo_addon (plain_key (get_prop ?body ''clientKey'')) = None"
    by (simp add: demo_addon_def AtlassianAddon_def addLifecycleEndpoints_def plain_key_def)
  from uninstalled_unknown_tenant [of ?body demo_addon plain_key, OF t k] h t k
  show ?thesis by blast
qed

text \<open>Uninstalling a tenant that is installed removes its record.\<close>

lemma uninstalled_removes_record:
  assumes "truthy body" and "truthy (get_prop body ''clientKey'')"
  shows "db (fst (uninstalled_callback ks a body)) (ks (get_prop body ''clientKey'')) = None"
  using assms by (simp add: uninstalled_callback_def Let_def keyv_delete_def)

text \<open>
  C9. A second call of \<open>addLifecycleEndpoints\<close> on an instance changes nothing but the log,
  to which it adds the warning: the meta router and its routes, the mount on the
  application, the lifecycle paths of the descriptor and every other field are as the
  first call left them, and nothing is raised.
\<close>

theorem addLifecycleEndpoints_twice:
  "addLifecycleEndpoints (addLifecycleEndpoints a) =
     (addLifecycleEndpoints a)
       \<lparr>logged := logged (addLifecycleEndpoints a) @
          [''Trying to reinitialize lifecycle endpoints.   Skipping...'']\<rparr>"
  by (simp add: addLifecycleEndpoints_def)

text \<open>The constructor has made the first call, so the lifecycle paths are set on every
  instance.\<close>

lemma constructor_sets_lifecycle:
  "lifecycle (descriptorData (AtlassianAddon params app path backend maxAge jc)) =
     Some \<lparr>installed = ''/meta/installed'', uninstalled = ''/meta/uninstalled''\<rparr>"
  by (simp add: AtlassianAddon_def addLifecycleEndpoints_def)

section \<open>Webhook dispatch\<close>

text \<open>
  The dispatcher looks a handler up by comparing the \<open>event\<close> of each registered
  definition with the \<open>webhookEvent\<close> property of the payload. A payload whose
  \<open>webhookEvent\<close> names a registered event, with a handler that resolves, is answered
  200 after one invocation.
\<close>

lemma dispatch_handled:
  assumes "req_body req = Some p"
    and "i < length webhooks"
    and "JStr (event (defn (webhooks ! i))) = payload_get p ''webhookEvent''"
    and "handler (webhooks ! nat (findIndex
            (\<lambda>wh. JStr (event (defn wh)) = payload_get p ''webhookEvent'') webhooks)) p
         = Resolves b"
  shows "invoked (webhook_callback webhooks req) =
           [(nat (findIndex
               (\<lambda>wh. JStr (event (defn wh)) = payload_get p ''webhookEvent'') webhooks), p)] \<and>
         sent (webhook_callback webhooks req) =
           Some \<lparr>status = 200,
                 json = JObj [(''code'', JNum 200),
                              (''msg'', JStr ''Event handled successfully'')]\<rparr>"
proof -
  have "0 \<le> findIndex (\<lambda>wh. JStr (event (defn wh)) = payload_get p ''webhookEvent'') webhooks"
    using assms(2,3) by (rule findIndex_found)
  then show ?thesis
    using assms(1,4) by (simp add: webhook_callback_def Let_def sendError_def)
qed

text \<open>
  C1. The claim: when the \<open>event\<close> field of the payload, the field the payload
  interface documents, equals the \<open>event\<close> of a registered configuration, that
  configuration's handler is invoked once with the payload and the response is 200.
  The dispatcher does not read that field. On a payload of the documented shape, naming
  the registered event \<open>jira:issue_created\<close> in its \<open>event\<close> field, with a handler that
  would resolve, it invokes nothing and answers 404.
\<close>

theorem documented_event_field_not_dispatched:
  "webhook_callback
     [\<lparr>defn = issue_created, handler = (\<lambda>p. Resolves True)\<rparr>]
     \<lparr>req_params_event = ''jira:issue_created'',
      req_body = Some \<lparr>wp_timestamp = ''1700000000000'', wp_event = ''jira:issue_created'',
                        wp_index = []\<rparr>\<rparr>
   = \<lparr>invoked = [],
      sent = Some \<lparr>status = 404,
                   json = JObj [(''code'', JNum 404), (''msg'', JStr ''Event handler not found'')]\<rparr>,
      next_error = None,
      messages = [''Webhook event handler not found for jira:issue_created''],
      uncaught = None\<rparr>"
  by (simp add: webhook_callback_def issue_created_def payload_get_def sendError_def Let_def)



text \<open>Whatever the batch and the request, one run of the callback invokes at most one
  handler.\<close>

lemma dispatch_at_most_one: "length (invoked (webhook_callback webhooks req)) \<le> 1"
  by (simp add: webhook_callback_def Let_def catch_block_def
      split: option.splits handler_result.splits sum.splits)

text \<open>
  C6. When no registered configuration has the event name of the payload (the name the
  dispatcher looks up, the payload's \<open>webhookEvent\<close>), no handler is invoked and the
  response is \<open>{code: 404, msg}\<close>; nothing is raised.
\<close>

theorem dispatch_not_found:
  assumes "req_body req = Some p"
    and "\<forall>wh\<in>set webhooks. JStr (event (defn wh)) \<noteq> payload_get p ''webhookEvent''"
  shows "invoked (webhook_callback webhooks req) = [] \<and>
         sent (webhook_callback webhooks req) =
           Some \<lparr>status = 404,
                 json = JObj [(''code'', JNum 404), (''msg'', JStr ''Event handler not found'')]\<rparr> \<and>
         uncaught (webhook_callback webhooks req) = None"
proof -
  have "findIndex (\<lambda>wh. JStr (event (defn wh)) = payload_get p ''webhookEvent'') webhooks = - 1"
    using assms(2) by (intro findIndex_none) simp
  then show ?thesis
    using assms(1) by (simp add: webhook_callback_def Let_def sendError_def)
qed

theorem dispatch_not_found_witness:
  "invoked (webhook_callback
      [\<lparr>defn = issue_created\<lparr>event := ''jira:issue_deleted''\<rparr>, handler = (\<lambda>p. Resolves True)\<rparr>]
      \<lparr>req_params_event = ''jira:issue_created'', req_body = Some jira_payload\<rparr>) = [] \<and>
   sent (webhook_callback
      [\<lparr>defn = issue_created\<lparr>event := ''jira:issue_deleted''\<rparr>, handler = (\<lambda>p. Resolves True)\<rparr>]
      \<lparr>req_params_event = ''jira:issue_created'', req_body = Some jira_payload\<rparr>) =
     Some \<lparr>status = 404,
           json = JObj [(''code'', JNum 404), (''msg'', JStr ''Event handler not found'')]\<rparr>"
proof -
  let ?batch =
    "[\<lparr>defn = issue_created\<lparr>event := ''jira:issue_deleted''\<rparr>, handler = (\<lambda>p. Resolves True)\<rparr>]"
  let ?req = "\<lparr>req_params_event = ''jira:issue_created'', req_body = Some jira_payload\<rparr>"
  have b: "req_body ?req = Some jira_payload" by simp
  have n: "\<forall>wh\<in>set ?batch. JStr (event (defn wh)) \<noteq> payload_get jira_payload ''webhookEvent''"
    by (simp add: payload_get_def jira_payload_def)
  from dispatch_not_found [OF b n] show ?thesis by simp
qed

text \<open>
  A handler that rejects with a value on which \<open>toString\<close> can be called is answered with
  \<open>{code: 500, msg}\<close>, and nothing leaves the callback.
\<close>

lemma dispatch_rejection_caught:
  assumes "req_body req = Some p"
    and "i < length webhooks"
    and "JStr (event (defn (webhooks ! i))) = payload_get p ''webhookEvent''"
    and "handler (webhooks ! nat (findIndex
            (\<lambda>wh. JStr (event (defn wh)) = payload_get p ''webhookEvent'') webhooks)) p
         = Rejects (RejectValue s)"
  shows "sent (webhook_callback webhooks req) =
           Some \<lparr>status = 500,
                 json = JObj [(''code'', JNum 500),
                              (''msg'', JStr ''Exception thrown during handling of webhook event'')]\<rparr> \<and>
         uncaught (webhook_callback webhooks req) = None"
proof -
  have "0 \<le> findIndex (\<lambda>wh. JStr (event (defn wh)) = payload_get p ''webhookEvent'') webhooks"
    using assms(2,3) by (rule findIndex_found)
  then show ?thesis
    using assms(1,4) by (simp add: webhook_callback_def Let_def catch_block_def sendError_def)
qed

text \<open>
  C7. The claim: whatever a handler throws is caught in the route and answered with 500,
  and never leaves the callback. A handler that rejects with \<open>undefined\<close> (or \<open>null\<close>)
  shows otherwise: the catch block evaluates \<open>e.toString()\<close> before it answers, that
  raises a TypeError, no response is sent and the TypeError leaves the callback.
\<close>

theorem nullish_rejection_escapes_catch:
  "webhook_callback
     [\<lparr>defn = issue_created, handler = (\<lambda>p. Rejects RejectNullish)\<rparr>]
     \<lparr>req_params_event = ''jira:issue_created'', req_body = Some jira_payload\<rparr>
   = \<lparr>invoked = [(0, jira_payload)], sent = None, next_error = None, messages = [],
      uncaught = Some TypeError\<rparr>"
  by (simp add: webhook_callback_def issue_created_def jira_payload_def payload_get_def
      catch_block_def Let_def)

section \<open>The request-hash step\<close>

text \<open>
  C8. On every verification the cross-check of the request hash against the token's
  claim is performed, with the result of the comparison, when the host has not disabled
  it; the step is skipped exactly when the host has disabled it.
\<close>

theorem cross_check_qsh_skipped_iff_disabled:
  "(cross_check_qsh disabled request_hash claimed_hash = QshSkipped) = disabled \<and>
   cross_check_qsh False request_hash claimed_hash = QshChecked (request_hash = claimed_hash)"
  by (simp add: cross_check_qsh_def)

theorem cross_check_qsh_skipped_iff_disabled_witness:
  "cross_check_qsh False ''hash-of-the-request'' ''hash-in-the-token'' = QshChecked False \<and>
   cross_check_qsh True ''hash-of-the-request'' ''hash-in-the-token'' = QshSkipped"
  using cross_check_qsh_skipped_iff_disabled
          [of True "''hash-of-the-request''" "''hash-in-the-token''"]
  by simp

text \<open>The one fact of the source on the matter: the getter of the class returns true.\<close>

lemma skipQshVerification_true: "skipQshVerification a"
  by (simp add: skipQshVerification_def)

section \<open>The UPM token\<close>


text \<open>A failed request is passed on as it is.\<close>

lemma getUpmToken_failed_request:
  "axios (getAxiosConfig ''get'' server ''application/vnd.atl.plugins.installed+json''
            (Some [(''os_authType'', ''basic'')]) None None) = Rejected err
     \<Longrightarrow> getUpmToken axios server = Rejected err"
  by (simp add: getUpmToken_def)



end
